theory Spec2Isabelle
  imports Main "HOL-Library.Word" "HOL-Library.Monad_Syntax"
begin

unbundle bit_operations_syntax

section \<open>Program memory of the 8-bit instruction-set simulator (program_memory.c)\<close>

type_synonym u8 = "8 word"
type_synonym u32 = "32 word"

subsection \<open>Constants of program_memory.h\<close>

text \<open>
  program_memory.c includes program_memory.h, which is not part of the sources at hand.
  Every macro that the C file takes from it is a field of the record \<open>header\<close>, and each
  function below takes the header as its first argument, so that nothing is assumed about
  the values. The operation codes, the registers and the port addresses are only ever
  passed to \<open>assemble\<close>, whose parameters are \<open>uint8_t\<close>: their fields hold the byte that
  arrives there. \<open>RESET_vect\<close> is compared with a promoted address and is an \<open>int\<close>;
  \<open>PROGRAM_MEMORY_ADDRESS_WIDTH\<close> is the number of elements of the array \<open>data\<close>;
  \<open>PORTB0\<close> .. \<open>PORTB2\<close> are shift counts; \<open>low\<close> and \<open>high\<close> are the two function-like
  macros applied to 1000, with the byte that \<open>assemble\<close> receives as result.
\<close>

record header =
  PROGRAM_MEMORY_ADDRESS_WIDTH :: nat
  RESET_vect :: int
  NOP :: u8
  JMP :: u8
  CALL :: u8
  RET :: u8
  LD :: u8
  ST :: u8
  OUT :: u8
  LDI :: u8
  R16 :: u8
  R17 :: u8
  R18 :: u8
  R19 :: u8
  R24 :: u8
  XREG :: u8
  XL :: u8
  XH :: u8
  PORTB :: u8
  DDRB :: u8
  PORTB0 :: nat
  PORTB1 :: nat
  PORTB2 :: nat
  low :: "int \<Rightarrow> u8"
  high :: "int \<Rightarrow> u8"

subsection \<open>Macro definitions of program_memory.c (lines 12 to 22)\<close>

text \<open>
  The start addresses are integer literals in C. \<open>setup\<close> and \<open>end\<close> are reserved words
  here and carry the suffix \<open>_addr\<close>.
\<close>

definition main :: int where "main = 8"
definition main_loop :: int where "main_loop = 9"
definition led_blink :: int where "led_blink = 13"
definition setup_addr :: int where "setup_addr = 18"
definition init_ports :: int where "init_ports = 21"
definition init_registers :: int where "init_registers = 24"
definition end_addr :: int where "end_addr = 30"

definition LED1 :: "header \<Rightarrow> nat" where "LED1 h = PORTB0 h"
definition LED2 :: "header \<Rightarrow> nat" where "LED2 h = PORTB1 h"
definition LED3 :: "header \<Rightarrow> nat" where "LED3 h = PORTB2 h"

text \<open>
  An \<open>int\<close> argument of \<open>assemble\<close> is converted to \<open>uint8_t\<close> at the call, which keeps
  its low eight bits. The shifts \<open>1 << LED1\<close> and the like are computed on \<open>int\<close> before
  that conversion: \<open>push_bit\<close> on \<open>int\<close> below, which is the C value for every shift
  count under 31 (a larger count is undefined behaviour in C; a pin number is at most 7).
\<close>

definition to_u8 :: "int \<Rightarrow> u8" where
  "to_u8 i = word_of_int i"

subsection \<open>assemble (lines 160 to 166)\<close>

text \<open>
  The three bytes are promoted to \<open>int\<close>, shifted and or-ed; the largest value,
  \<open>255 << 16\<close>, fits a 32-bit \<open>int\<close>, so the conversion to \<open>uint32_t\<close> changes nothing.
\<close>

definition assemble :: "u8 \<Rightarrow> u8 \<Rightarrow> u8 \<Rightarrow> u32" where
  "assemble op_code op1 op2 =
     push_bit 16 (ucast op_code) OR push_bit 8 (ucast op1) OR ucast op2"

subsection \<open>The store: data (line 33) and program_memory_initialized (line 42)\<close>

record program_memory =
  data :: "u32 list"
  program_memory_initialized :: bool

text \<open>
  Both objects have static storage duration: when the program starts, every element of
  \<open>data\<close> is zero and the flag is false. The array has
  \<open>PROGRAM_MEMORY_ADDRESS_WIDTH\<close> elements for as long as the program runs.
\<close>

definition program_start :: "header \<Rightarrow> program_memory" where
  "program_start h =
     \<lparr>data = replicate (PROGRAM_MEMORY_ADDRESS_WIDTH h) 0, program_memory_initialized = False\<rparr>"

definition sized :: "header \<Rightarrow> program_memory \<Rightarrow> bool" where
  "sized h s = (length (data s) = PROGRAM_MEMORY_ADDRESS_WIDTH h)"

text \<open>
  The assignment \<open>data[i] = v\<close>. An index outside the array is undefined behaviour in C:
  the model returns \<open>None\<close> there.
\<close>

definition store :: "nat \<Rightarrow> u32 \<Rightarrow> u32 list \<Rightarrow> u32 list option" where
  "store i v d = (if i < length d then Some (d[i := v]) else None)"

subsection \<open>program_memory_write (lines 40 to 110)\<close>

definition program_memory_write :: "header \<Rightarrow> program_memory \<Rightarrow> program_memory option" where
  "program_memory_write h s =
     (if program_memory_initialized s then Some s
      else do {
        d \<leftarrow> store 0 (assemble (JMP h) (to_u8 main) 0x00) (data s);
        d \<leftarrow> store 1 (assemble (NOP h) 0x00 0x00) d;
        d \<leftarrow> store 2 (assemble (NOP h) 0x00 0x00) d;
        d \<leftarrow> store 3 (assemble (NOP h) 0x00 0x00) d;
        d \<leftarrow> store 4 (assemble (NOP h) 0x00 0x00) d;
        d \<leftarrow> store 5 (assemble (NOP h) 0x00 0x00) d;
        d \<leftarrow> store 6 (assemble (NOP h) 0x00 0x00) d;
        d \<leftarrow> store 7 (assemble (NOP h) 0x00 0x00) d;
        d \<leftarrow> store 8 (assemble (CALL h) (to_u8 setup_addr) 0x00) d;
        d \<leftarrow> store 9 (assemble (CALL h) (to_u8 led_blink) 0x00) d;
        d \<leftarrow> store 10 (assemble (ST h) (XREG h) (R18 h)) d;
        d \<leftarrow> store 11 (assemble (LD h) (R24 h) (XREG h)) d;
        d \<leftarrow> store 12 (assemble (JMP h) (to_u8 main_loop) 0x00) d;
        d \<leftarrow> store 13 (assemble (OUT h) (PORTB h) (R16 h)) d;
        d \<leftarrow> store 14 (assemble (OUT h) (PORTB h) (R17 h)) d;
        d \<leftarrow> store 15 (assemble (OUT h) (PORTB h) (R18 h)) d;
        d \<leftarrow> store 16 (assemble (OUT h) (PORTB h) (R19 h)) d;
        d \<leftarrow> store 17 (assemble (RET h) 0x00 0x00) d;
        d \<leftarrow> store 18 (assemble (CALL h) (to_u8 init_ports) 0x00) d;
        d \<leftarrow> store 19 (assemble (CALL h) (to_u8 init_registers) 0x00) d;
        d \<leftarrow> store 20 (assemble (RET h) 0x00 0x00) d;
        d \<leftarrow> store 21 (assemble (LDI h) (R16 h)
               (to_u8 (push_bit (LED1 h) 1 OR push_bit (LED2 h) 1 OR push_bit (LED3 h) 1))) d;
        d \<leftarrow> store 22 (assemble (OUT h) (DDRB h) (R16 h)) d;
        d \<leftarrow> store 23 (assemble (RET h) 0x00 0x00) d;
        d \<leftarrow> store 24 (assemble (LDI h) (R16 h) (to_u8 (push_bit (LED1 h) 1))) d;
        d \<leftarrow> store 25 (assemble (LDI h) (R17 h) (to_u8 (push_bit (LED2 h) 1))) d;
        d \<leftarrow> store 26 (assemble (LDI h) (R18 h) (to_u8 (push_bit (LED3 h) 1))) d;
        d \<leftarrow> store 27 (assemble (LDI h) (XL h) (low h 1000)) d;
        d \<leftarrow> store 28 (assemble (LDI h) (XH h) (high h 1000)) d;
        d \<leftarrow> store 29 (assemble (RET h) 0x00 0x00) d;
        Some \<lparr>data = d, program_memory_initialized = True\<rparr>
      })"

subsection \<open>program_memory_read (lines 120 to 130)\<close>

text \<open>
  The address is promoted and compared with the array size; the element read is
  \<open>data[address]\<close>, inside the array whenever the store is \<open>sized\<close>.
\<close>

definition program_memory_read :: "header \<Rightarrow> program_memory \<Rightarrow> u8 \<Rightarrow> u32" where
  "program_memory_read h s address =
     (if unat address < PROGRAM_MEMORY_ADDRESS_WIDTH h then data s ! unat address
      else 0x00)"

subsection \<open>program_memory_subroutine_name (lines 138 to 148)\<close>

text \<open>
  The function runs against the same store as the other two; the store is an argument
  here as it is there.
\<close>

definition program_memory_subroutine_name :: "header \<Rightarrow> program_memory \<Rightarrow> u8 \<Rightarrow> string" where
  "program_memory_subroutine_name h s address =
     (if uint address \<ge> RESET_vect h \<and> uint address < main then ''RESET_vect''
      else if uint address \<ge> main \<and> uint address < main_loop then ''main''
      else if uint address \<ge> main_loop \<and> uint address < led_blink then ''main_loop''
      else if uint address \<ge> led_blink \<and> uint address < setup_addr then ''led_blink''
      else if uint address \<ge> setup_addr \<and> uint address < init_ports then ''setup''
      else if uint address \<ge> init_ports \<and> uint address < init_registers then ''init_ports''
      else if uint address \<ge> init_registers \<and> uint address < end_addr then ''init_registers''
      else ''Unknown'')"

subsection \<open>Descriptions of the program that the theorems compare the code with\<close>

text \<open>
  The right-hand sides of the thirty assignments of \<open>program_memory_write\<close>, lines 49 to
  106, in the order of their addresses.
\<close>

definition fixed_program :: "header \<Rightarrow> u32 list" where
  "fixed_program h =
     [assemble (JMP h) (to_u8 main) 0x00,
      assemble (NOP h) 0x00 0x00,
      assemble (NOP h) 0x00 0x00,
      assemble (NOP h) 0x00 0x00,
      assemble (NOP h) 0x00 0x00,
      assemble (NOP h) 0x00 0x00,
      assemble (NOP h) 0x00 0x00,
      assemble (NOP h) 0x00 0x00,
      assemble (CALL h) (to_u8 setup_addr) 0x00,
      assemble (CALL h) (to_u8 led_blink) 0x00,
      assemble (ST h) (XREG h) (R18 h),
      assemble (LD h) (R24 h) (XREG h),
      assemble (JMP h) (to_u8 main_loop) 0x00,
      assemble (OUT h) (PORTB h) (R16 h),
      assemble (OUT h) (PORTB h) (R17 h),
      assemble (OUT h) (PORTB h) (R18 h),
      assemble (OUT h) (PORTB h) (R19 h),
      assemble (RET h) 0x00 0x00,
      assemble (CALL h) (to_u8 init_ports) 0x00,
      assemble (CALL h) (to_u8 init_registers) 0x00,
      assemble (RET h) 0x00 0x00,
      assemble (LDI h) (R16 h)
        (to_u8 (push_bit (LED1 h) 1 OR push_bit (LED2 h) 1 OR push_bit (LED3 h) 1)),
      assemble (OUT h) (DDRB h) (R16 h),
      assemble (RET h) 0x00 0x00,
      assemble (LDI h) (R16 h) (to_u8 (push_bit (LED1 h) 1)),
      assemble (LDI h) (R17 h) (to_u8 (push_bit (LED2 h) 1)),
      assemble (LDI h) (R18 h) (to_u8 (push_bit (LED3 h) 1)),
      assemble (LDI h) (XL h) (low h 1000),
      assemble (LDI h) (XH h) (high h 1000),
      assemble (RET h) 0x00 0x00]"

text \<open>
  The seven tests of \<open>program_memory_subroutine_name\<close>, lines 140 to 146, as triples of
  lower bound, upper bound and returned name, in the order of the tests. An address is
  in a range when it passes that range's test.
\<close>

definition subroutine_ranges :: "header \<Rightarrow> (int \<times> int \<times> string) list" where
  "subroutine_ranges h =
     [(RESET_vect h, main, ''RESET_vect''),
      (main, main_loop, ''main''),
      (main_loop, led_blink, ''main_loop''),
      (led_blink, setup_addr, ''led_blink''),
      (setup_addr, init_ports, ''setup''),
      (init_ports, init_registers, ''init_ports''),
      (init_registers, end_addr, ''init_registers'')]"

definition in_range :: "int \<Rightarrow> int \<times> int \<times> string \<Rightarrow> bool" where
  "in_range a r = (fst r \<le> a \<and> a < fst (snd r))"

text \<open>The array \<open>d\<close> with its first slots replaced by the words of \<open>p\<close>.\<close>

definition overlay :: "'a list \<Rightarrow> 'a list \<Rightarrow> 'a list" where
  "overlay p d = p @ drop (length p) d"

subsection \<open>Concrete inputs\<close>

text \<open>
  A header to run the functions on. Three of its values are those the comments of
  program_memory.c give: 256 instructions (line 30), no operation as 0x00 (line 116),
  and the reset vector at the start of the program, address 0 (line 46). The other
  values are sample bytes: no statement below depends on them.
\<close>

definition sample_header :: header where
  "sample_header =
     \<lparr>PROGRAM_MEMORY_ADDRESS_WIDTH = 256, RESET_vect = 0,
      NOP = 0x00, JMP = 0x0A, CALL = 0x0B, RET = 0x0C, LD = 0x05, ST = 0x06,
      OUT = 0x03, LDI = 0x01,
      R16 = 16, R17 = 17, R18 = 18, R19 = 19, R24 = 24, XREG = 26, XL = 26, XH = 27,
      PORTB = 0x25, DDRB = 0x24, PORTB0 = 0, PORTB1 = 1, PORTB2 = 2,
      low = (\<lambda>x. word_of_int x), high = (\<lambda>x. word_of_int (drop_bit 8 x))\<rparr>"

section \<open>The instruction word\<close>

lemma assemble_op_code: "ucast (drop_bit 16 (assemble op_code op1 op2)) = op_code"
  unfolding assemble_def
  by (auto simp add: bit_eq_iff bit_simps dest: bit_imp_le_length)

lemma assemble_op1: "ucast (drop_bit 8 (assemble op_code op1 op2)) = op1"
  unfolding assemble_def
  by (auto simp add: bit_eq_iff bit_simps dest: bit_imp_le_length)

lemma assemble_op2: "ucast (assemble op_code op1 op2) = op2"
  unfolding assemble_def
  by (auto simp add: bit_eq_iff bit_simps dest: bit_imp_le_length)

lemma assemble_top: "drop_bit 24 (assemble op_code op1 op2) = 0"
  unfolding assemble_def
  by (auto simp add: bit_eq_iff bit_simps dest: bit_imp_le_length)

lemma assemble_zero: "assemble 0 0 0 = 0"
  by (simp add: assemble_def)

lemma assemble_eq_iff:
  "(assemble o1 a1 b1 = assemble o2 a2 b2) = (o1 = o2 \<and> a1 = a2 \<and> b1 = b2)"
proof
  assume eq: "assemble o1 a1 b1 = assemble o2 a2 b2"
  have "o1 = o2"
    using assemble_op_code [of o1 a1 b1] assemble_op_code [of o2 a2 b2] eq by simp
  moreover have "a1 = a2"
    using assemble_op1 [of o1 a1 b1] assemble_op1 [of o2 a2 b2] eq by simp
  moreover have "b1 = b2"
    using assemble_op2 [of o1 a1 b1] assemble_op2 [of o2 a2 b2] eq by simp
  ultimately show "o1 = o2 \<and> a1 = a2 \<and> b1 = b2" by simp
next
  assume "o1 = o2 \<and> a1 = a2 \<and> b1 = b2"
  then show "assemble o1 a1 b1 = assemble o2 a2 b2" by simp
qed

text \<open>
  C3. For all bytes \<open>op_code\<close>, \<open>op1\<close> and \<open>op2\<close>, the word \<open>assemble op_code op1 op2\<close>
  has bits 23 to 16 equal to \<open>op_code\<close>, bits 15 to 8 equal to \<open>op1\<close>, bits 7 to 0 equal
  to \<open>op2\<close>, and every bit above bit 23 equal to zero.
\<close>

theorem assemble_layout:
  "ucast (drop_bit 16 (assemble op_code op1 op2)) = op_code
   \<and> ucast (drop_bit 8 (assemble op_code op1 op2)) = op1
   \<and> ucast (assemble op_code op1 op2) = op2
   \<and> drop_bit 24 (assemble op_code op1 op2) = 0"
  by (simp add: assemble_op_code assemble_op1 assemble_op2 assemble_top)

text \<open>
  C4. The encoder is injective: two byte triples are assembled to the same word only
  when they are the same triple, so distinct triples never collide.
\<close>

theorem assemble_injective:
  "(assemble o1 a1 b1 = assemble o2 a2 b2) = ((o1, a1, b1) = (o2, a2, b2))"
  by (simp add: assemble_eq_iff)

section \<open>Writing the program\<close>

lemma store_first: "d \<noteq> [] \<Longrightarrow> store 0 v d = Some (overlay [v] d)"
  by (cases d) (simp_all add: store_def overlay_def)

lemma store_next:
  "n = length p \<Longrightarrow> n < length d \<Longrightarrow> store n v (overlay p d) = Some (overlay (p @ [v]) d)"
  by (simp add: store_def overlay_def list_update_append Cons_nth_drop_Suc [symmetric])

lemma length_fixed_program: "length (fixed_program h) = 30"
  by (simp add: fixed_program_def)

lemma write_overlay:
  assumes "30 \<le> length (data s)" and "\<not> program_memory_initialized s"
  shows "program_memory_write h s =
         Some \<lparr>data = overlay (fixed_program h) (data s), program_memory_initialized = True\<rparr>"
proof -
  from assms have "data s \<noteq> []" by auto
  with assms show ?thesis
    unfolding program_memory_write_def fixed_program_def
    by (simp add: store_first store_next)
qed

lemma write_fresh:
  assumes "30 \<le> length (data s)" and "\<not> program_memory_initialized s"
  shows "program_memory_write h s =
         Some \<lparr>data = fixed_program h @ drop 30 (data s), program_memory_initialized = True\<rparr>"
  using write_overlay [OF assms, of h]
  by (simp only: overlay_def length_fixed_program)

lemma write_again: "program_memory_initialized s \<Longrightarrow> program_memory_write h s = Some s"
  by (simp add: program_memory_write_def)

lemma write_sets_flag:
  "program_memory_write h s = Some s' \<Longrightarrow> program_memory_initialized s'"
  by (cases "program_memory_initialized s")
     (auto simp add: program_memory_write_def bind_eq_Some_conv)

lemma write_twice:
  "(program_memory_write h s \<bind> program_memory_write h) = program_memory_write h s"
proof (cases "program_memory_write h s")
  case None
  then show ?thesis by simp
next
  case (Some s')
  then show ?thesis by (simp add: write_again [OF write_sets_flag [OF Some]])
qed



lemma nop_word_zero: "(assemble (NOP h) 0 0 = 0) = (NOP h = 0)"
  using assemble_eq_iff [of "NOP h" 0 0 0 0 0] by (simp add: assemble_zero)




section \<open>Reading an instruction\<close>

lemma unat_u8_less: "unat (a :: u8) < 256"
  using unsigned_less [of a, where ?'a = nat] by simp

text \<open>
  C2. For every address at or beyond the declared capacity
  \<open>PROGRAM_MEMORY_ADDRESS_WIDTH\<close>, \<open>program_memory_read\<close> returns the word of the
  no-operation instruction instead of failing: its operation code field, bits 23 to 16,
  is the code of \<open>NOP\<close>, and both operand fields are zero. The function returns the
  literal 0x00, which its comment names no operation; the code of \<open>NOP\<close> comes from
  the header and is 0x00 by hypothesis.
\<close>

theorem program_memory_read_beyond_capacity:
  assumes "NOP h = 0x00"
    and "PROGRAM_MEMORY_ADDRESS_WIDTH h \<le> unat address"
  shows "program_memory_read h s address = assemble (NOP h) 0 0
         \<and> ucast (drop_bit 16 (program_memory_read h s address)) = NOP h
         \<and> ucast (drop_bit 8 (program_memory_read h s address)) = (0 :: u8)
         \<and> ucast (program_memory_read h s address) = (0 :: u8)"
proof -
  from assms(2) have "program_memory_read h s address = 0"
    by (simp add: program_memory_read_def)
  with assms(1) show ?thesis by (simp add: assemble_zero)
qed

theorem program_memory_read_beyond_capacity_witness:
  "NOP (sample_header\<lparr>PROGRAM_MEMORY_ADDRESS_WIDTH := 64\<rparr>) = 0x00
   \<and> PROGRAM_MEMORY_ADDRESS_WIDTH (sample_header\<lparr>PROGRAM_MEMORY_ADDRESS_WIDTH := 64\<rparr>)
       \<le> unat (200 :: u8)
   \<and> program_memory_read (sample_header\<lparr>PROGRAM_MEMORY_ADDRESS_WIDTH := 64\<rparr>)
        (program_start (sample_header\<lparr>PROGRAM_MEMORY_ADDRESS_WIDTH := 64\<rparr>)) 200
       = assemble (NOP (sample_header\<lparr>PROGRAM_MEMORY_ADDRESS_WIDTH := 64\<rparr>)) 0 0"
proof -
  have a: "NOP (sample_header\<lparr>PROGRAM_MEMORY_ADDRESS_WIDTH := 64\<rparr>) = 0x00"
    by (simp add: sample_header_def)
  have b: "PROGRAM_MEMORY_ADDRESS_WIDTH (sample_header\<lparr>PROGRAM_MEMORY_ADDRESS_WIDTH := 64\<rparr>)
       \<le> unat (200 :: u8)"
    by simp
  show ?thesis
    using a b program_memory_read_beyond_capacity [OF a b] by simp
qed

text \<open>
  C8. With the capacity of 256 slots and the 8-bit address, the test
  \<open>address < PROGRAM_MEMORY_ADDRESS_WIDTH\<close> holds for every address, the access to the
  array is inside its bounds, and \<open>program_memory_read\<close> returns the stored word
  \<open>data[address]\<close>: the other branch is never taken.
\<close>

theorem program_memory_read_in_range:
  assumes "PROGRAM_MEMORY_ADDRESS_WIDTH h = 256"
    and "sized h s"
  shows "unat address < PROGRAM_MEMORY_ADDRESS_WIDTH h
         \<and> unat address < length (data s)
         \<and> program_memory_read h s address = data s ! unat address"
  using assms unat_u8_less [of address]
  by (simp add: program_memory_read_def sized_def)

theorem program_memory_read_in_range_witness:
  "PROGRAM_MEMORY_ADDRESS_WIDTH sample_header = 256
   \<and> sized sample_header (program_start sample_header)
   \<and> unat (255 :: u8) < PROGRAM_MEMORY_ADDRESS_WIDTH sample_header
   \<and> program_memory_read sample_header (program_start sample_header) 255 =
       data (program_start sample_header) ! unat (255 :: u8)"
proof -
  have a: "PROGRAM_MEMORY_ADDRESS_WIDTH sample_header = 256"
    by (simp add: sample_header_def)
  have b: "sized sample_header (program_start sample_header)"
    by (simp add: sized_def program_start_def)
  show ?thesis
    using a b program_memory_read_in_range [OF a b, of 255] by simp
qed

text \<open>
  C10. Before any call of \<open>program_memory_write\<close>, in the state the program starts in,
  \<open>program_memory_read\<close> returns the zero word for every address; the array has its
  declared size there, so the read is defined.
\<close>

theorem program_memory_read_at_start:
  "program_memory_read h (program_start h) address = 0
   \<and> sized h (program_start h)
   \<and> \<not> program_memory_initialized (program_start h)"
  by (simp add: program_memory_read_def program_start_def sized_def)

section \<open>Subroutine names\<close>

lemmas address_defs =
  main_def main_loop_def led_blink_def setup_addr_def init_ports_def init_registers_def
  end_addr_def

lemma name_find:
  "program_memory_subroutine_name h s a =
     (case find (in_range (uint a)) (subroutine_ranges h) of
        Some r \<Rightarrow> snd (snd r) | None \<Rightarrow> ''Unknown'')"
  by (simp add: program_memory_subroutine_name_def subroutine_ranges_def in_range_def)

lemma name_known:
  "RESET_vect h = 0 \<Longrightarrow> (program_memory_subroutine_name h s a \<noteq> ''Unknown'') = (uint a < 30)"
  by (auto simp add: program_memory_subroutine_name_def address_defs)

lemma one_range:
  "RESET_vect h = 0 \<Longrightarrow>
   length (filter (in_range (uint a)) (subroutine_ranges h)) = (if uint a < 30 then 1 else 0)"
  by (auto simp add: subroutine_ranges_def in_range_def address_defs)

lemma ranges_chain:
  "map (\<lambda>r. fst (snd r)) (butlast (subroutine_ranges h)) = map fst (tl (subroutine_ranges h))"
  by (simp add: subroutine_ranges_def)

lemma ranges_ends:
  "fst (hd (subroutine_ranges h)) = RESET_vect h
   \<and> fst (snd (last (subroutine_ranges h))) = 30"
  by (simp add: subroutine_ranges_def end_addr_def)

lemma name_beyond_end:
  "end_addr \<le> uint a \<Longrightarrow> program_memory_subroutine_name h s a = ''Unknown''"
  by (simp add: program_memory_subroutine_name_def address_defs)

lemma name_main: "program_memory_subroutine_name h s 8 = ''main''"
  by (simp add: program_memory_subroutine_name_def address_defs)

lemma name_led_blink: "program_memory_subroutine_name h s 13 = ''led_blink''"
  by (simp add: program_memory_subroutine_name_def address_defs)

text \<open>
  C5. With the reset vector at address 0, the named ranges tile the addresses 0 to 29:
  the end of each range is the start of the next, the first range starts at 0 and the
  last ends at 30, and every address below 30 is in exactly one range and every other
  address in none. \<open>program_memory_subroutine_name\<close> returns the name of the first
  range that holds the address, so it returns a name other than Unknown exactly for the
  addresses below 30, and Unknown for the addresses 30 to 255.
\<close>

theorem subroutine_ranges_tile:
  assumes "RESET_vect h = 0"
  shows "map (\<lambda>r. fst (snd r)) (butlast (subroutine_ranges h)) = map fst (tl (subroutine_ranges h))
         \<and> fst (hd (subroutine_ranges h)) = 0
         \<and> fst (snd (last (subroutine_ranges h))) = 30
         \<and> length (filter (in_range (uint a)) (subroutine_ranges h)) =
             (if uint a < 30 then 1 else 0)
         \<and> program_memory_subroutine_name h s a =
             (case find (in_range (uint a)) (subroutine_ranges h) of
                Some r \<Rightarrow> snd (snd r) | None \<Rightarrow> ''Unknown'')
         \<and> (program_memory_subroutine_name h s a \<noteq> ''Unknown'') = (uint a < 30)"
  using assms ranges_chain [of h] ranges_ends [of h] one_range [OF assms, of a]
    name_find [of h s a] name_known [OF assms, of s a]
  by simp

theorem subroutine_ranges_tile_witness:
  "RESET_vect sample_header = 0
   \<and> length (filter (in_range (uint (29 :: u8))) (subroutine_ranges sample_header)) = 1
   \<and> program_memory_subroutine_name sample_header (program_start sample_header) 29 \<noteq> ''Unknown''
   \<and> length (filter (in_range (uint (30 :: u8))) (subroutine_ranges sample_header)) = 0
   \<and> program_memory_subroutine_name sample_header (program_start sample_header) 30 = ''Unknown''"
proof -
  have a: "RESET_vect sample_header = 0" by (simp add: sample_header_def)
  note t29 = subroutine_ranges_tile [OF a, of 29 "program_start sample_header"]
  note t30 = subroutine_ranges_tile [OF a, of 30 "program_start sample_header"]
  have "length (filter (in_range (uint (29 :: u8))) (subroutine_ranges sample_header)) = 1"
    using t29 [THEN conjunct2, THEN conjunct2, THEN conjunct2, THEN conjunct1] by simp
  moreover have "program_memory_subroutine_name sample_header (program_start sample_header) 29
      \<noteq> ''Unknown''"
    using t29 [THEN conjunct2, THEN conjunct2, THEN conjunct2, THEN conjunct2, THEN conjunct2]
    by simp
  moreover have
    "length (filter (in_range (uint (30 :: u8))) (subroutine_ranges sample_header)) = 0"
    using t30 [THEN conjunct2, THEN conjunct2, THEN conjunct2, THEN conjunct1] by simp
  moreover have "program_memory_subroutine_name sample_header (program_start sample_header) 30
      = ''Unknown''"
    using t30 [THEN conjunct2, THEN conjunct2, THEN conjunct2, THEN conjunct2, THEN conjunct2]
    by simp
  ultimately show ?thesis using a by simp
qed

text \<open>
  C9. The name returned by \<open>program_memory_subroutine_name\<close> depends on the address
  only: it is the same for any two stores, so the same before and after
  \<open>program_memory_write\<close> and in any two runs.
\<close>

theorem program_memory_subroutine_name_ignores_store:
  "program_memory_subroutine_name h s address = program_memory_subroutine_name h s' address"
  by (simp add: program_memory_subroutine_name_def)

section \<open>The program after the first call, and further calls\<close>

lemma fixed_program_0: "fixed_program h ! 0 = assemble (JMP h) (to_u8 main) 0"
  by (simp add: fixed_program_def)

lemma to_u8_main: "to_u8 main = 8"
  by (simp add: to_u8_def main_def)

lemma read_0_after_write:
  assumes "sized h s"
    and "30 \<le> PROGRAM_MEMORY_ADDRESS_WIDTH h"
    and "\<not> program_memory_initialized s"
  shows "\<exists>s'. program_memory_write h s = Some s'
              \<and> program_memory_read h s' 0 = assemble (JMP h) 8 0"
proof -
  from assms have len: "30 \<le> length (data s)" by (simp add: sized_def)
  let ?s' = "\<lparr>data = fixed_program h @ drop 30 (data s), program_memory_initialized = True\<rparr>"
  have "program_memory_write h s = Some ?s'"
    by (rule write_fresh [OF len assms(3)])
  moreover have "program_memory_read h ?s' 0 = assemble (JMP h) 8 0"
    using assms(2)
    by (simp add: program_memory_read_def nth_append length_fixed_program fixed_program_0
        to_u8_main)
  ultimately show ?thesis by blast
qed

text \<open>
  C6. After the first call of \<open>program_memory_write\<close>, the word read at address 0 is
  the encoded jump with operation code \<open>JMP\<close> and first operand 8, the start address of
  \<open>main\<close>; the subroutine name of address 8 is main, that of address 13 is led_blink,
  and that of address 255 and of any address at or beyond the end address 30 is Unknown.
\<close>

theorem reference_program_scenario:
  assumes "sized h s"
    and "30 \<le> PROGRAM_MEMORY_ADDRESS_WIDTH h"
    and "\<not> program_memory_initialized s"
    and "end_addr \<le> uint a"
  shows "\<exists>s'. program_memory_write h s = Some s'
              \<and> program_memory_read h s' 0 = assemble (JMP h) 8 0
              \<and> ucast (drop_bit 16 (program_memory_read h s' 0)) = JMP h
              \<and> ucast (drop_bit 8 (program_memory_read h s' 0)) = (8 :: u8)
              \<and> program_memory_subroutine_name h s' 8 = ''main''
              \<and> program_memory_subroutine_name h s' 13 = ''led_blink''
              \<and> program_memory_subroutine_name h s' 255 = ''Unknown''
              \<and> program_memory_subroutine_name h s' a = ''Unknown''"
proof -
  from read_0_after_write [OF assms(1-3)] obtain s'
    where w: "program_memory_write h s = Some s'"
      and r: "program_memory_read h s' 0 = assemble (JMP h) 8 0"
    by blast
  have "end_addr \<le> uint (255 :: u8)" by (simp add: end_addr_def)
  then have "program_memory_subroutine_name h s' 255 = ''Unknown''"
    by (rule name_beyond_end)
  with w r name_beyond_end [OF assms(4), of h s'] show ?thesis
    by (simp add: assemble_op_code assemble_op1 name_main name_led_blink)
qed

theorem reference_program_scenario_witness:
  "sized sample_header (program_start sample_header)
   \<and> 30 \<le> PROGRAM_MEMORY_ADDRESS_WIDTH sample_header
   \<and> \<not> program_memory_initialized (program_start sample_header)
   \<and> end_addr \<le> uint (30 :: u8)
   \<and> (\<exists>s'. program_memory_write sample_header (program_start sample_header) = Some s'
            \<and> program_memory_read sample_header s' 0 = assemble (JMP sample_header) 8 0
            \<and> program_memory_subroutine_name sample_header s' 8 = ''main''
            \<and> program_memory_subroutine_name sample_header s' 13 = ''led_blink''
            \<and> program_memory_subroutine_name sample_header s' 30 = ''Unknown'')"
proof -
  have a: "sized sample_header (program_start sample_header)"
    by (simp add: sized_def program_start_def)
  have b: "30 \<le> PROGRAM_MEMORY_ADDRESS_WIDTH sample_header"
    by (simp add: sample_header_def)
  have c: "\<not> program_memory_initialized (program_start sample_header)"
    by (simp add: program_start_def)
  have d: "end_addr \<le> uint (30 :: u8)"
    by (simp add: end_addr_def)
  from reference_program_scenario [OF a b c d] a b c d show ?thesis
    by blast
qed

text \<open>
  C7. \<open>program_memory_write\<close> is idempotent: on a store of the declared size, the call
  returns, and a second call returns the store of the first call unchanged; two calls
  in a row give the result of one.
\<close>

theorem program_memory_write_idempotent:
  assumes "sized h s"
    and "30 \<le> PROGRAM_MEMORY_ADDRESS_WIDTH h"
  shows "(\<exists>s1. program_memory_write h s = Some s1 \<and> program_memory_write h s1 = Some s1)
         \<and> (program_memory_write h s \<bind> program_memory_write h) = program_memory_write h s"
proof -
  from assms have len: "30 \<le> length (data s)" by (simp add: sized_def)
  have "\<exists>s1. program_memory_write h s = Some s1"
  proof (cases "program_memory_initialized s")
    case True
    then show ?thesis by (simp add: write_again)
  next
    case False
    then show ?thesis by (simp add: write_fresh [OF len])
  qed
  then obtain s1 where w: "program_memory_write h s = Some s1" by blast
  then have "program_memory_write h s1 = Some s1"
    by (rule write_again [OF write_sets_flag])
  with w show ?thesis by (simp add: write_twice)
qed

theorem program_memory_write_idempotent_witness:
  "sized sample_header (program_start sample_header)
   \<and> 30 \<le> PROGRAM_MEMORY_ADDRESS_WIDTH sample_header
   \<and> (\<exists>s1. program_memory_write sample_header (program_start sample_header) = Some s1
            \<and> program_memory_write sample_header s1 = Some s1)"
proof -
  have a: "sized sample_header (program_start sample_header)"
    by (simp add: sized_def program_start_def)
  have b: "30 \<le> PROGRAM_MEMORY_ADDRESS_WIDTH sample_header"
    by (simp add: sample_header_def)
  from program_memory_write_idempotent [OF a b] a b show ?thesis
    by blast
qed

end
